theory Spec2Isabelle
  imports Main
begin

section \<open>Strings of the host language\<close>

text \<open>
  A JavaScript string is a sequence of UTF-16 code units, here integers; the empty
  string is the only falsy one. A literal of the source is written \<open>js ''...''\<close>.
\<close>

type_synonym jsString = "int list"

definition js :: "string \<Rightarrow> jsString" where
  "js s = map of_char s"

text \<open>
  \<open>s.includes(sub)\<close>: some position of \<open>s\<close> starts a copy of \<open>sub\<close>. The search tries
  the current position and then moves one code unit on; the empty \<open>sub\<close> is found in
  every string, the empty one included.
\<close>

fun str_includes :: "'a list \<Rightarrow> 'a list \<Rightarrow> bool" where
  "str_includes [] sub = (sub = [])"
| "str_includes (c # cs) sub = (take (length sub) (c # cs) = sub \<or> str_includes cs sub)"

text \<open>
  \<open>StringToCodePoints\<close> and \<open>CodePointsToString\<close> of ECMA-262: a leading surrogate
  followed by a trailing one is one code point, any other code unit is a code point of
  its own; a code point above \<open>0xFFFF\<close> is written back as a surrogate pair.
\<close>

fun StringToCodePoints :: "jsString \<Rightarrow> int list" where
  "StringToCodePoints (c # d # rest) =
     (if 0xD800 \<le> c \<and> c \<le> 0xDBFF \<and> 0xDC00 \<le> d \<and> d \<le> 0xDFFF
      then (0x10000 + (c - 0xD800) * 0x400 + (d - 0xDC00)) # StringToCodePoints rest
      else c # StringToCodePoints (d # rest))"
| "StringToCodePoints cs = cs"

definition UTF16EncodeCodePoint :: "int \<Rightarrow> jsString" where
  "UTF16EncodeCodePoint cp =
     (if cp \<le> 0xFFFF then [cp]
      else [(cp - 0x10000) div 0x400 + 0xD800, (cp - 0x10000) mod 0x400 + 0xDC00])"

definition CodePointsToString :: "int list \<Rightarrow> jsString" where
  "CodePointsToString cps = concat (map UTF16EncodeCodePoint cps)"

text \<open>
  \<open>toLowerCase\<close> is specified by ECMA-262 as the default lower-casing of the Unicode
  standard, read from the Unicode Character Database. The database is not part of the
  repository, so its three tables that lower-casing reads are a parameter: the
  lower-case mapping of a code point (one code point as a rule, two for U+0130) and the
  properties \<open>Cased\<close> and \<open>Case_Ignorable\<close>.
\<close>

record UCD =
  Lowercase_Mapping :: "int \<Rightarrow> int list"
  Cased :: "int \<Rightarrow> bool"
  Case_Ignorable :: "int \<Rightarrow> bool"

text \<open>
  Walking away from a code point: case-ignorable code points are passed over until a
  cased one is met. The capital sigma U+03A3 is the one code point whose lower-casing
  depends on its neighbours: it is in final position when such a walk backwards meets a
  cased letter and the walk forwards does not, and then it becomes U+03C2, not its mapping
  U+03C3.
\<close>

fun seesCased :: "UCD \<Rightarrow> int list \<Rightarrow> bool" where
  "seesCased ucd [] = False"
| "seesCased ucd (c # cs) = (Cased ucd c \<or> (Case_Ignorable ucd c \<and> seesCased ucd cs))"

fun toLowercase :: "UCD \<Rightarrow> int list \<Rightarrow> int list \<Rightarrow> int list" where
  "toLowercase ucd seen [] = []"
| "toLowercase ucd seen (c # after) =
     (if c = 0x3A3 \<and> seesCased ucd seen \<and> \<not> seesCased ucd after then [0x3C2]
      else Lowercase_Mapping ucd c)
     @ toLowercase ucd (c # seen) after"

definition toLowerCase :: "UCD \<Rightarrow> jsString \<Rightarrow> jsString" where
  "toLowerCase ucd s = CodePointsToString (toLowercase ucd [] (StringToCodePoints s))"

section \<open>Tree model (lib/tauri: interface TreeNode)\<close>

text \<open>
  The TypeScript interface has two mandatory strings, a two-valued tag and three
  optional fields. An optional field is an \<open>option\<close>: \<open>None\<close> is JavaScript's
  \<open>undefined\<close>.
\<close>

datatype NodeType = File | Dir

datatype TreeNode =
  TreeNode (name: jsString) (path: jsString) (node_type: NodeType)
           (children: "TreeNode list option") (size_bytes: "nat option")
           (is_too_large: "bool option")

text \<open>The children of a node as a plain list (\<open>undefined\<close> read as no children).\<close>

definition kids :: "TreeNode \<Rightarrow> TreeNode list" where
  "kids node = (case children node of None \<Rightarrow> [] | Some cs \<Rightarrow> cs)"

section \<open>Filter engine (components/FileTree)\<close>

fun nodeMatchesFilter :: "UCD \<Rightarrow> TreeNode \<Rightarrow> jsString \<Rightarrow> bool" where
  "nodeMatchesFilter ucd (TreeNode nm p ty ch sz big) flt =
     (let lowerFilter = toLowerCase ucd flt in
      if str_includes (toLowerCase ucd nm) lowerFilter then True
      else (case ch of
              Some cs \<Rightarrow> list_ex (\<lambda>child. nodeMatchesFilter ucd child flt) cs
            | None \<Rightarrow> False))"

text \<open>
  \<open>getPathsToExpand\<close>: the \<open>for\<close> loop over the children threads the set \<open>paths\<close>; a
  child that matches adds the current path and then every path of its own recursive
  result. \<open>node.path || parentPath\<close> takes the parent path when the node's own is empty.
\<close>

fun getPathsToExpand :: "UCD \<Rightarrow> TreeNode \<Rightarrow> jsString \<Rightarrow> jsString \<Rightarrow> jsString set" where
  "getPathsToExpand ucd (TreeNode nm p ty ch sz big) flt parentPath =
     (let currentPath = (if p \<noteq> [] then p else parentPath) in
      case ch of
        Some cs \<Rightarrow>
          fold (\<lambda>child paths.
                  if nodeMatchesFilter ucd child flt
                  then insert currentPath paths \<union> getPathsToExpand ucd child flt (path child)
                  else paths) cs {}
      | None \<Rightarrow> {})"

text \<open>
  The call in the component, \<open>getPathsToExpand(tree, localSearchFilter)\<close>, leaves the
  third parameter to its default, the empty string.
\<close>

definition pathsToExpand :: "UCD \<Rightarrow> TreeNode \<Rightarrow> jsString \<Rightarrow> jsString set" where
  "pathsToExpand ucd tree flt = getPathsToExpand ucd tree flt []"

text \<open>
  \<open>visibleChildren\<close> of \<open>TreeNodeItem\<close>: no children gives the empty list, the empty
  (falsy) filter gives the children as they are, any other filter keeps the matching ones.
\<close>

definition visibleChildren :: "UCD \<Rightarrow> TreeNode \<Rightarrow> jsString \<Rightarrow> TreeNode list" where
  "visibleChildren ucd node searchFilter =
     (case children node of
        None \<Rightarrow> []
      | Some cs \<Rightarrow>
          if searchFilter = [] then cs
          else filter (\<lambda>child. nodeMatchesFilter ucd child searchFilter) cs)"

text \<open>
  The rows \<open>TreeNodeItem\<close> renders, top to bottom. A row is the \<open>treeitem\<close> element
  of one node: the node, its depth, \<open>aria-expanded\<close> (absent on a file) and
  \<open>aria-selected\<close>. At depth 0 a directory renders no row of its own, only its visible
  children; everywhere else a node renders its row and, when it is an expanded directory
  with visible children, theirs below it.
\<close>

record Row =
  row_node :: TreeNode
  row_depth :: nat
  row_expanded :: "bool option"
  row_selected :: bool

function TreeNodeItem ::
  "UCD \<Rightarrow> TreeNode \<Rightarrow> jsString option \<Rightarrow> jsString set \<Rightarrow> jsString \<Rightarrow> nat \<Rightarrow> Row list" where
  "TreeNodeItem ucd (TreeNode nm p ty ch sz big) selectedPath expandedPaths searchFilter depth =
     (let node = TreeNode nm p ty ch sz big;
          isDir = (ty = Dir);
          isExpanded = (p \<in> expandedPaths);
          isSelected = (selectedPath = Some p);
          below = concat (map (\<lambda>child. TreeNodeItem ucd child selectedPath expandedPaths
                                           searchFilter (depth + 1))
                              (visibleChildren ucd node searchFilter))
      in if depth = 0 \<and> isDir then below
         else \<lparr>row_node = node, row_depth = depth,
               row_expanded = (if isDir then Some isExpanded else None),
               row_selected = isSelected\<rparr>
              # (if isDir \<and> isExpanded \<and> visibleChildren ucd node searchFilter \<noteq> []
                 then below else []))"
  by pat_completeness auto
termination
proof (relation
    "measure (\<lambda>(ucd, node, selectedPath, expandedPaths, searchFilter, depth). size node)")
  show "wf (measure (\<lambda>(ucd :: UCD, node :: TreeNode, selectedPath :: jsString option,
                        expandedPaths :: jsString set, searchFilter :: jsString,
                        depth :: nat). size node))"
    by simp
next
  fix ucd :: UCD and nm p :: jsString and ty :: NodeType and ch :: "TreeNode list option"
    and sz :: "nat option" and big :: "bool option"
    and selectedPath :: "jsString option" and expandedPaths :: "jsString set"
    and searchFilter :: jsString and depth :: nat and node child :: TreeNode
  assume "node = TreeNode nm p ty ch sz big"
    and "child \<in> set (visibleChildren ucd node searchFilter)"
  then obtain cs where cs: "ch = Some cs" and mem: "child \<in> set cs"
    by (cases ch) (auto simp: visibleChildren_def split: if_splits)
  from mem have "size child \<le> size_list size cs"
    by (simp add: size_list_estimation')
  with cs have "size child < size (TreeNode nm p ty ch sz big)"
    by simp
  then show "((ucd, child, selectedPath, expandedPaths, searchFilter, depth + 1),
              (ucd, TreeNode nm p ty ch sz big, selectedPath, expandedPaths, searchFilter,
               depth))
             \<in> measure (\<lambda>(ucd, node, selectedPath, expandedPaths, searchFilter, depth).
                          size node)"
    by simp
qed

declare TreeNodeItem.simps [simp del]

section \<open>Vocabulary of the statements\<close>

text \<open>
  The nodes strictly below a node, in pre-order, and the nodes of a tree (the root first).
\<close>

fun descendants :: "TreeNode \<Rightarrow> TreeNode list" where
  "descendants (TreeNode nm p ty ch sz big) =
     (case ch of
        None \<Rightarrow> []
      | Some cs \<Rightarrow> concat (map (\<lambda>c. c # descendants c) cs))"

definition nodes :: "TreeNode \<Rightarrow> TreeNode list" where
  "nodes t = t # descendants t"




text \<open>
  Strings of Basic Latin, and the rows of the database for Basic Latin: \<open>A\<close> to \<open>Z\<close>
  map to \<open>a\<close> to \<open>z\<close>, every other code point from 0 to 127 to itself.
\<close>

definition isAscii :: "jsString \<Rightarrow> bool" where
  "isAscii s \<longleftrightarrow> (\<forall>c\<in>set s. 0 \<le> c \<and> c < 128)"

definition asciiLower :: "int \<Rightarrow> int" where
  "asciiLower c = (if 0x41 \<le> c \<and> c \<le> 0x5A then c + 0x20 else c)"

definition asciiRows :: "UCD \<Rightarrow> bool" where
  "asciiRows ucd \<longleftrightarrow> (\<forall>c\<in>set [0..127]. Lowercase_Mapping ucd c = [asciiLower c])"

text \<open>
  An excerpt of the database for the samples: the rows of Basic Latin and of the Greek
  letters U+0391 to U+03A9 and U+03B1 to U+03C9. Every other code point has the row of a
  caseless character here; none occurs in a sample.
\<close>

definition ucdExcerpt :: UCD where
  "ucdExcerpt =
     \<lparr>Lowercase_Mapping =
        (\<lambda>c. if (0x41 \<le> c \<and> c \<le> 0x5A) \<or> (0x391 \<le> c \<and> c \<le> 0x3A9 \<and> c \<noteq> 0x3A2)
              then [c + 0x20] else [c]),
      Cased =
        (\<lambda>c. (0x41 \<le> c \<and> c \<le> 0x5A) \<or> (0x61 \<le> c \<and> c \<le> 0x7A)
              \<or> (0x391 \<le> c \<and> c \<le> 0x3A9 \<and> c \<noteq> 0x3A2) \<or> (0x3B1 \<le> c \<and> c \<le> 0x3C9)),
      Case_Ignorable = (\<lambda>c. c \<in> set [0x27, 0x2E, 0x3A, 0x5E, 0x60])\<rparr>"

text \<open>
  The invariants of the data model: paths are unique across the tree, only a directory
  carries children, and only the root may have the empty path.
\<close>

definition uniquePaths :: "TreeNode \<Rightarrow> bool" where
  "uniquePaths t \<longleftrightarrow> distinct (map path (nodes t))"

definition childrenOnlyOnDirs :: "TreeNode \<Rightarrow> bool" where
  "childrenOnlyOnDirs t \<longleftrightarrow> (\<forall>n\<in>set (nodes t). children n \<noteq> None \<longrightarrow> node_type n = Dir)"

definition wellFormed :: "TreeNode \<Rightarrow> bool" where
  "wellFormed t \<longleftrightarrow>
     uniquePaths t \<and> childrenOnlyOnDirs t \<and> (\<forall>n\<in>set (descendants t). path n \<noteq> [])"

text \<open>
  Sample trees. The first is the tree of the specification's example: a root \<open>/\<close> with
  the directory \<open>src\<close>, holding \<open>a.ts\<close>, and the file \<open>readme.md\<close>. The second
  is a workspace called \<open>notes\<close> with one file. The third is a file whose name is the
  three Greek capitals alpha, sigma, beta; the sample filter is its first two letters.
\<close>

definition exampleFile :: TreeNode where
  "exampleFile = TreeNode (js ''a.ts'') (js ''/src/a.ts'') File None (Some 12) (Some False)"

definition exampleSrc :: TreeNode where
  "exampleSrc = TreeNode (js ''src'') (js ''/src'') Dir (Some [exampleFile]) None None"

definition exampleReadme :: TreeNode where
  "exampleReadme =
     TreeNode (js ''readme.md'') (js ''/readme.md'') File None (Some 40) (Some False)"

definition specExample :: TreeNode where
  "specExample = TreeNode (js ''/'') (js ''/'') Dir (Some [exampleSrc, exampleReadme]) None None"

definition notesRoot :: TreeNode where
  "notesRoot =
     TreeNode (js ''notes'') [] Dir
       (Some [TreeNode (js ''a.ts'') (js ''a.ts'') File None (Some 12) (Some False)]) None None"



section \<open>Expansion state (components/FileTree)\<close>

text \<open>
  The body of the \<open>useMemo\<close> hook that depends on the filter and the tree: with a
  non-empty filter and a tree present it adds every path of \<open>getPathsToExpand\<close> to the
  previous set; otherwise it does nothing.
\<close>

definition autoExpand ::
  "UCD \<Rightarrow> jsString \<Rightarrow> TreeNode option \<Rightarrow> jsString set \<Rightarrow> jsString set" where
  "autoExpand ucd localSearchFilter tree prev =
     (case tree of
        Some t \<Rightarrow>
          if localSearchFilter \<noteq> [] then prev \<union> getPathsToExpand ucd t localSearchFilter []
          else prev
      | None \<Rightarrow> prev)"

text \<open>The updater passed to \<open>setExpandedPaths\<close> by \<open>toggleExpanded\<close>.\<close>

definition toggleExpanded :: "jsString \<Rightarrow> jsString set \<Rightarrow> jsString set" where
  "toggleExpanded p prev = (if p \<in> prev then prev - {p} else insert p prev)"

section \<open>Content formatter (components/FileViewer)\<close>

text \<open>
  \<open>s.split(sep)\<close> for a one-character separator: the segments between the separators,
  in order. The result is never empty: a string without the separator is its own single
  segment, and a separator at the very end leaves an empty last segment.
\<close>

fun splitOn :: "'a \<Rightarrow> 'a list \<Rightarrow> 'a list list" where
  "splitOn sep [] = [[]]"
| "splitOn sep (c # cs) =
     (if c = sep then [] # splitOn sep cs
      else (case splitOn sep cs of
              [] \<Rightarrow> [[c]]
            | seg # segs \<Rightarrow> (c # seg) # segs))"

text \<open>\<open>xs.pop()\<close> as a value: the last element, \<open>undefined\<close> on the empty array.\<close>

definition pop :: "'a list \<Rightarrow> 'a option" where
  "pop xs = (if xs = [] then None else Some (last xs))"

text \<open>
  What a property read on the object literal \<open>languageMap\<close> can return: one of its
  strings, or a member inherited from \<open>Object.prototype\<close>: one of its functions, or,
  under \<open>__proto__\<close>, that prototype object itself.
\<close>

datatype JsValue = JsString jsString | JsFunction jsString | JsObjectPrototype

definition languageMap :: "(jsString \<times> jsString) list" where
  "languageMap =
     [(js ''js'', js ''javascript''), (js ''jsx'', js ''javascript''),
      (js ''ts'', js ''typescript''), (js ''tsx'', js ''typescript''),
      (js ''mjs'', js ''javascript''), (js ''cjs'', js ''javascript''),
      (js ''html'', js ''html''), (js ''htm'', js ''html''), (js ''css'', js ''css''),
      (js ''scss'', js ''scss''), (js ''less'', js ''less''), (js ''json'', js ''json''),
      (js ''yaml'', js ''yaml''), (js ''yml'', js ''yaml''), (js ''toml'', js ''toml''),
      (js ''xml'', js ''xml''), (js ''rs'', js ''rust''), (js ''py'', js ''python''),
      (js ''rb'', js ''ruby''), (js ''go'', js ''go''), (js ''sh'', js ''shell''),
      (js ''bash'', js ''shell''), (js ''zsh'', js ''shell''), (js ''md'', js ''markdown''),
      (js ''mdx'', js ''markdown''), (js ''gitignore'', js ''gitignore''),
      (js ''env'', js ''dotenv'')]"

definition inheritedFunctions :: "jsString list" where
  "inheritedFunctions =
     [js ''constructor'', js ''hasOwnProperty'', js ''isPrototypeOf'',
      js ''propertyIsEnumerable'', js ''toLocaleString'', js ''toString'', js ''valueOf'',
      js ''__defineGetter__'', js ''__defineSetter__'', js ''__lookupGetter__'',
      js ''__lookupSetter__'']"

definition languageMap_get :: "jsString \<Rightarrow> JsValue option" where
  "languageMap_get key =
     (case map_of languageMap key of
        Some label \<Rightarrow> Some (JsString label)
      | None \<Rightarrow>
          if key \<in> set inheritedFunctions then Some (JsFunction key)
          else if key = js ''__proto__'' then Some JsObjectPrototype
          else None)"

text \<open>\<open>a || b\<close> on a looked-up value: \<open>undefined\<close> and the empty string are falsy.\<close>

definition orElse :: "JsValue option \<Rightarrow> JsValue \<Rightarrow> JsValue" where
  "orElse v d = (case v of None \<Rightarrow> d | Some x \<Rightarrow> if x = JsString [] then d else x)"

text \<open>The separators are the full stop \<open>0x2E\<close>, the slash \<open>0x2F\<close> and the line feed \<open>0x0A\<close>.\<close>

definition getLanguageFromPath :: "UCD \<Rightarrow> jsString \<Rightarrow> JsValue" where
  "getLanguageFromPath ucd p =
     (let extension = (case pop (splitOn 0x2E p) of
                         None \<Rightarrow> []
                       | Some e \<Rightarrow> toLowerCase ucd e)
      in orElse (languageMap_get extension) (JsString (js ''plaintext'')))"

definition getFilename :: "jsString \<Rightarrow> jsString" where
  "getFilename p =
     (case pop (splitOn 0x2F p) of
        None \<Rightarrow> p
      | Some f \<Rightarrow> if f = [] then p else f)"

text \<open>A nullable string is truthy when it is present and not empty.\<close>

definition truthy :: "jsString option \<Rightarrow> bool" where
  "truthy v = (case v of None \<Rightarrow> False | Some x \<Rightarrow> x \<noteq> [])"

text \<open>
  What \<open>FileViewer\<close> renders: the loading notice, the error panel (with the file name
  when a path is set), the invitation to select a file, or the file itself: header name,
  language label and the numbered lines. The label is placed in the page as a child
  element. A string is shown as it is and a function is left out, but a plain object is
  refused: with the label \<open>Object.prototype\<close> rendering throws, and the component
  returns nothing.
\<close>

datatype ViewerView =
    ViewerLoading
  | ViewerError "jsString option" jsString
  | ViewerEmpty
  | ViewerContent jsString JsValue "jsString list"

datatype RenderError = ObjectAsChild

definition FileViewer ::
  "UCD \<Rightarrow> jsString option \<Rightarrow> jsString option \<Rightarrow> bool \<Rightarrow> jsString option
     \<Rightarrow> RenderError + ViewerView" where
  "FileViewer ucd content filePath isLoading error =
     (if isLoading then Inr ViewerLoading
      else if truthy error then
        Inr (ViewerError (if truthy filePath then map_option getFilename filePath else None)
                         (case error of None \<Rightarrow> [] | Some message \<Rightarrow> message))
      else if \<not> truthy content \<and> \<not> truthy filePath then Inr ViewerEmpty
      else
        (let lines = (case content of None \<Rightarrow> [] | Some text \<Rightarrow> splitOn 0x0A text);
             language = (case filePath of
                           None \<Rightarrow> JsString (js ''plaintext'')
                         | Some p \<Rightarrow> if p \<noteq> [] then getLanguageFromPath ucd p
                                     else JsString (js ''plaintext''))
         in if language = JsObjectPrototype then Inl ObjectAsChild
            else Inr (ViewerContent (case filePath of
                                       None \<Rightarrow> js ''Untitled''
                                     | Some p \<Rightarrow> if p \<noteq> [] then getFilename p
                                                 else js ''Untitled'')
                                    language lines)))"

section \<open>Application state and its handlers (App, FileTree)\<close>

text \<open>
  The calls to the external collaborators that have been issued and have not settled yet.
\<close>

datatype Request =
    LoadWorkspacePath
  | SelectFolder
  | ListTree jsString
  | SaveWorkspacePath jsString
  | ReadTextFile jsString jsString

text \<open>
  The \<open>useState\<close> cells of \<open>App\<close>, the two of \<open>FileTree\<close> (\<open>expandedPaths\<close> and
  \<open>localSearchFilter\<close>), and the requests in flight. \<open>FileTree\<close> is rendered once,
  at a fixed place and without a key, so its two cells live as long as \<open>App\<close> does.
\<close>

record AppState =
  workspacePath :: "jsString option"
  tree :: "TreeNode option"
  treeLoading :: bool
  treeError :: "jsString option"
  selectedFilePath :: "jsString option"
  fileContent :: "jsString option"
  fileLoading :: bool
  fileError :: "jsString option"
  searchFilter :: jsString
  expandedPaths :: "jsString set"
  localSearchFilter :: jsString
  pending :: "Request list"

definition issue :: "Request \<Rightarrow> AppState \<Rightarrow> AppState" where
  "issue r s = s\<lparr>pending := pending s @ [r]\<rparr>"

definition settle :: "Request \<Rightarrow> AppState \<Rightarrow> AppState" where
  "settle r s = s\<lparr>pending := remove1 r (pending s)\<rparr>"

text \<open>
  The state after the first render: every cell at its initial value, and the mount effect
  has asked for the remembered workspace path.
\<close>

definition initialState :: AppState where
  "initialState =
     \<lparr>workspacePath = None, tree = None, treeLoading = False, treeError = None,
      selectedFilePath = None, fileContent = None, fileLoading = False, fileError = None,
      searchFilter = [], expandedPaths = {}, localSearchFilter = [],
      pending = [LoadWorkspacePath]\<rparr>"

text \<open>
  \<open>handleLoadTree\<close> up to its first \<open>await\<close>: the seven setter calls, then the call
  of \<open>listTree\<close>. Setting the tree to \<open>null\<close> makes the hook of \<open>FileTree\<close> run
  again, and its guard skips the body.
\<close>

definition loadTreeResets :: "jsString \<Rightarrow> AppState \<Rightarrow> AppState" where
  "loadTreeResets p s =
     s\<lparr>treeLoading := True, treeError := None, tree := None, workspacePath := Some p,
       selectedFilePath := None, fileContent := None, fileError := None\<rparr>"

definition handleLoadTree :: "jsString \<Rightarrow> AppState \<Rightarrow> AppState" where
  "handleLoadTree p s = issue (ListTree p) (loadTreeResets p s)"

text \<open>
  The rest of \<open>handleLoadTree\<close>, run when \<open>listTree\<close> settles. A tree: store it (the
  hook of \<open>FileTree\<close> sees a new tree and runs), then ask to save the path. A rejection:
  store its message and stop loading. When the save settles, loading stops; a rejected
  save stores its message first.
\<close>

definition listTreeResolved :: "UCD \<Rightarrow> jsString \<Rightarrow> TreeNode \<Rightarrow> AppState \<Rightarrow> AppState" where
  "listTreeResolved ucd p treeData s =
     issue (SaveWorkspacePath p)
       (s\<lparr>tree := Some treeData,
          expandedPaths :=
            autoExpand ucd (localSearchFilter s) (Some treeData) (expandedPaths s)\<rparr>)"

definition listTreeRejected :: "jsString \<Rightarrow> AppState \<Rightarrow> AppState" where
  "listTreeRejected message s = s\<lparr>treeError := Some message, treeLoading := False\<rparr>"

definition saveResolved :: "AppState \<Rightarrow> AppState" where
  "saveResolved s = s\<lparr>treeLoading := False\<rparr>"

definition saveRejected :: "jsString \<Rightarrow> AppState \<Rightarrow> AppState" where
  "saveRejected message s = s\<lparr>treeError := Some message, treeLoading := False\<rparr>"

text \<open>
  The two callers of \<open>handleLoadTree\<close>: the mount effect, once the remembered path has
  arrived, and \<open>handleConnectFolder\<close>, once the folder picker has closed. Neither looks
  at a load in flight.
\<close>

definition lastPathResolved :: "jsString option \<Rightarrow> AppState \<Rightarrow> AppState" where
  "lastPathResolved lastPath s =
     (case lastPath of
        None \<Rightarrow> s
      | Some p \<Rightarrow> if p \<noteq> [] then handleLoadTree p s else s)"

definition pickerResolved :: "jsString option \<Rightarrow> AppState \<Rightarrow> AppState" where
  "pickerResolved picked s =
     (case picked of
        None \<Rightarrow> s
      | Some p \<Rightarrow> if p \<noteq> [] then handleLoadTree p s else s)"

definition pickerRejected :: "jsString \<Rightarrow> AppState \<Rightarrow> AppState" where
  "pickerRejected message s =
     s\<lparr>treeError := Some (js ''Failed to open folder picker: '' @ message)\<rparr>"

text \<open>
  \<open>handleFileSelect\<close> up to its \<open>await\<close>, and its two continuations.
\<close>

definition handleFileSelect :: "jsString \<Rightarrow> AppState \<Rightarrow> AppState" where
  "handleFileSelect relPath s =
     (case workspacePath s of
        None \<Rightarrow> s
      | Some root \<Rightarrow>
          if root = [] then s
          else issue (ReadTextFile root relPath)
                 (s\<lparr>selectedFilePath := Some relPath, fileLoading := True,
                    fileError := None, fileContent := None\<rparr>))"

definition readResolved :: "jsString \<Rightarrow> AppState \<Rightarrow> AppState" where
  "readResolved content s = s\<lparr>fileContent := Some content, fileLoading := False\<rparr>"

definition readRejected :: "jsString \<Rightarrow> AppState \<Rightarrow> AppState" where
  "readRejected message s = s\<lparr>fileError := Some message, fileLoading := False\<rparr>"

text \<open>
  \<open>handleClick\<close> of a row, and \<open>handleSearchChange\<close>: the hook of \<open>FileTree\<close> runs
  again when the filter text is a new one.
\<close>

definition handleClick :: "TreeNode \<Rightarrow> AppState \<Rightarrow> AppState" where
  "handleClick node s =
     (if node_type node = Dir
      then s\<lparr>expandedPaths := toggleExpanded (path node) (expandedPaths s)\<rparr>
      else handleFileSelect (path node) s)"

definition handleSearchChange :: "UCD \<Rightarrow> jsString \<Rightarrow> AppState \<Rightarrow> AppState" where
  "handleSearchChange ucd v s =
     s\<lparr>localSearchFilter := v, searchFilter := v,
       expandedPaths := (if v \<noteq> localSearchFilter s
                         then autoExpand ucd v (tree s) (expandedPaths s)
                         else expandedPaths s)\<rparr>"

text \<open>
  What \<open>FileTree\<close> and the content pane show in a state, and the two side by side as
  \<open>App\<close> renders them: when the content pane throws, nothing at all is rendered.
\<close>

datatype TreeView = TreeLoading | TreeError jsString | TreeEmpty | TreeShown "Row list"

definition FileTree :: "UCD \<Rightarrow> AppState \<Rightarrow> TreeView" where
  "FileTree ucd s =
     (if treeLoading s then TreeLoading
      else if truthy (treeError s)
        then TreeError (case treeError s of None \<Rightarrow> [] | Some message \<Rightarrow> message)
      else (case tree s of
              None \<Rightarrow> TreeEmpty
            | Some t \<Rightarrow>
                TreeShown (TreeNodeItem ucd t (selectedFilePath s) (expandedPaths s)
                                        (localSearchFilter s) 0)))"

definition contentPane :: "UCD \<Rightarrow> AppState \<Rightarrow> RenderError + ViewerView" where
  "contentPane ucd s =
     FileViewer ucd (fileContent s) (selectedFilePath s) (fileLoading s) (fileError s)"

definition App :: "UCD \<Rightarrow> AppState \<Rightarrow> RenderError + TreeView \<times> ViewerView" where
  "App ucd s =
     (case contentPane ucd s of
        Inl failure \<Rightarrow> Inl failure
      | Inr viewer \<Rightarrow> Inr (FileTree ucd s, viewer))"

text \<open>
  The events of the single-threaded loop: a request settles (\<open>Inl\<close> is a rejection with
  its message), or the user acts on what is on screen. An event that cannot happen in a
  state has no successor: a request settles only while it is in flight, the connect
  button is disabled while a tree loads, a row is clicked only while it is rendered, the
  search box exists only while a tree is shown, and nothing can be clicked in a state
  that does not render. A continuation always applies its setter calls to the cells;
  that the page stays blank after a failed render is not recorded in the state.
\<close>

datatype Event =
    LastPathDone "jsString option"
  | ConnectClick
  | PickerDone "jsString + jsString option"
  | ListTreeDone jsString "jsString + TreeNode"
  | SaveDone jsString "jsString + unit"
  | RowClick TreeNode
  | ReadDone jsString jsString "jsString + jsString"
  | SearchInput jsString

fun step :: "UCD \<Rightarrow> Event \<Rightarrow> AppState \<Rightarrow> AppState option" where
  "step ucd (LastPathDone r) s =
     (if LoadWorkspacePath \<in> set (pending s)
      then Some (lastPathResolved r (settle LoadWorkspacePath s)) else None)"
| "step ucd ConnectClick s =
     (case App ucd s of
        Inl failure \<Rightarrow> None
      | Inr shown \<Rightarrow> if treeLoading s then None else Some (issue SelectFolder s))"
| "step ucd (PickerDone r) s =
     (if SelectFolder \<in> set (pending s)
      then Some (case r of
                   Inl message \<Rightarrow> pickerRejected message (settle SelectFolder s)
                 | Inr picked \<Rightarrow> pickerResolved picked (settle SelectFolder s))
      else None)"
| "step ucd (ListTreeDone p r) s =
     (if ListTree p \<in> set (pending s)
      then Some (case r of
                   Inl message \<Rightarrow> listTreeRejected message (settle (ListTree p) s)
                 | Inr treeData \<Rightarrow> listTreeResolved ucd p treeData (settle (ListTree p) s))
      else None)"
| "step ucd (SaveDone p r) s =
     (if SaveWorkspacePath p \<in> set (pending s)
      then Some (case r of
                   Inl message \<Rightarrow> saveRejected message (settle (SaveWorkspacePath p) s)
                 | Inr u \<Rightarrow> saveResolved (settle (SaveWorkspacePath p) s))
      else None)"
| "step ucd (RowClick node) s =
     (case App ucd s of
        Inr (TreeShown rows, viewer) \<Rightarrow>
          if node \<in> row_node ` set rows then Some (handleClick node s) else None
      | _ \<Rightarrow> None)"
| "step ucd (ReadDone root relPath r) s =
     (if ReadTextFile root relPath \<in> set (pending s)
      then Some (case r of
                   Inl message \<Rightarrow> readRejected message (settle (ReadTextFile root relPath) s)
                 | Inr content \<Rightarrow> readResolved content (settle (ReadTextFile root relPath) s))
      else None)"
| "step ucd (SearchInput v) s =
     (case App ucd s of
        Inr (TreeShown rows, viewer) \<Rightarrow> Some (handleSearchChange ucd v s)
      | _ \<Rightarrow> None)"

fun run :: "UCD \<Rightarrow> AppState \<Rightarrow> Event list \<Rightarrow> AppState option" where
  "run ucd s [] = Some s"
| "run ucd s (e # es) = (case step ucd e s of None \<Rightarrow> None | Some s' \<Rightarrow> run ucd s' es)"

text \<open>
  Sample workspaces and event sequences. In the first sequence the user opens the
  directory \<open>src\<close> of the remembered workspace and then connects another folder. In
  the second the user opens the folder picker while the remembered path is still being
  fetched, so that two listings are in flight, and the older one settles last. In the
  third the user clicks two files in a row and the first read settles last.
\<close>

definition treeA :: TreeNode where
  "treeA =
     TreeNode (js ''a'') [] Dir
       (Some [TreeNode (js ''a.txt'') (js ''a.txt'') File None (Some 1) (Some False)])
       None None"

definition treeB :: TreeNode where
  "treeB =
     TreeNode (js ''b'') [] Dir
       (Some [TreeNode (js ''b.txt'') (js ''b.txt'') File None (Some 1) (Some False)])
       None None"

definition fileX :: TreeNode where
  "fileX = TreeNode (js ''x.txt'') (js ''x.txt'') File None (Some 1) (Some False)"

definition fileY :: TreeNode where
  "fileY = TreeNode (js ''y.txt'') (js ''y.txt'') File None (Some 1) (Some False)"

definition treeW :: TreeNode where
  "treeW = TreeNode (js ''w'') [] Dir (Some [fileX, fileY]) None None"

definition staleExpansionTrace :: "Event list" where
  "staleExpansionTrace =
     [LastPathDone (Some (js ''/a'')), ListTreeDone (js ''/a'') (Inr specExample),
      SaveDone (js ''/a'') (Inr ()), RowClick exampleSrc, ConnectClick,
      PickerDone (Inr (Some (js ''/b'')))]"

definition staleListingTrace :: "Event list" where
  "staleListingTrace =
     [ConnectClick, LastPathDone (Some (js ''/a'')), PickerDone (Inr (Some (js ''/b''))),
      ListTreeDone (js ''/b'') (Inr treeB), SaveDone (js ''/b'') (Inr ()),
      ListTreeDone (js ''/a'') (Inr treeA), SaveDone (js ''/a'') (Inr ())]"

definition staleReadTrace :: "Event list" where
  "staleReadTrace =
     [LastPathDone None, ConnectClick, PickerDone (Inr (Some (js ''/w''))),
      ListTreeDone (js ''/w'') (Inr treeW), SaveDone (js ''/w'') (Inr ()),
      RowClick fileX, RowClick fileY,
      ReadDone (js ''/w'') (js ''y.txt'') (Inr (js ''Y'')),
      ReadDone (js ''/w'') (js ''x.txt'') (Inr (js ''X''))]"

section \<open>Facts about the filter engine\<close>



lemma nodeMatches_step:
  "nodeMatchesFilter ucd n flt \<longleftrightarrow>
     str_includes (toLowerCase ucd (name n)) (toLowerCase ucd flt) \<or> (\<exists>c\<in>set (kids n). nodeMatchesFilter ucd c flt)"
  by (cases n) (auto simp: kids_def list_ex_iff split: option.splits)

lemma kids_descendants: "c \<in> set (kids n) \<Longrightarrow> set (nodes c) \<subseteq> set (descendants n)"
  by (cases n) (auto simp: kids_def nodes_def split: option.splits)


lemma kids_induct [case_names node]:
  assumes "\<And>n. (\<And>c. c \<in> set (kids n) \<Longrightarrow> P c) \<Longrightarrow> P n"
  shows "P n"
proof (induction n)
  case (TreeNode nm p ty ch sz big)
  show ?case
  proof (rule assms)
    fix c assume "c \<in> set (kids (TreeNode nm p ty ch sz big))"
    then show "P c"
      by (cases ch) (auto simp: kids_def intro: TreeNode.IH)
  qed
qed

lemma nodes_unfold: "set (nodes n) = insert n (\<Union>c\<in>set (kids n). set (nodes c))"
  by (cases n) (auto simp: kids_def nodes_def split: option.splits)

lemma nodeMatches_nodes:
  "nodeMatchesFilter ucd n flt \<longleftrightarrow> (\<exists>d\<in>set (nodes n). str_includes (toLowerCase ucd (name d)) (toLowerCase ucd flt))"
proof (induction n rule: kids_induct)
  case (node n)
  show ?case
    by (subst nodeMatches_step, subst nodes_unfold) (auto simp: node)
qed


lemma fold_paths:
  "fold (\<lambda>child paths. if P child then insert cp paths \<union> g child else paths) cs acc
     = acc \<union> (\<Union>c\<in>{c \<in> set cs. P c}. insert cp (g c))"
  by (induction cs arbitrary: acc) auto

lemma getPaths_unfold:
  "getPathsToExpand ucd n flt pp =
     (\<Union>c\<in>{c \<in> set (kids n). nodeMatchesFilter ucd c flt}.
        insert (if path n \<noteq> [] then path n else pp) (getPathsToExpand ucd c flt (path c)))"
  by (cases n) (auto simp: kids_def fold_paths split: option.splits)

lemma getPaths_default: "getPathsToExpand ucd n flt [] = getPathsToExpand ucd n flt (path n)"
  by (simp add: getPaths_unfold [of ucd n flt "[]"] getPaths_unfold [of ucd n flt "path n"])

lemma nodes_trans: "d \<in> set (nodes c) \<Longrightarrow> set (nodes d) \<subseteq> set (nodes c)"
proof (induction c rule: kids_induct)
  case (node n)
  from node.prems consider "d = n" | c where "c \<in> set (kids n)" "d \<in> set (nodes c)"
    unfolding nodes_unfold [of n] by blast
  then show ?case
  proof cases
    case 1
    then show ?thesis by simp
  next
    case 2
    then have "set (nodes d) \<subseteq> set (nodes c)" by (rule node.IH)
    also from 2 have "set (nodes c) \<subseteq> set (nodes n)"
      unfolding nodes_unfold [of n] by blast
    finally show ?thesis .
  qed
qed


lemma match_up:
  assumes "d \<in> set (nodes c)" and "nodeMatchesFilter ucd d flt"
  shows "nodeMatchesFilter ucd c flt"
proof -
  from assms(2) obtain m where "m \<in> set (nodes d)"
    and "str_includes (toLowerCase ucd (name m)) (toLowerCase ucd flt)"
    unfolding nodeMatches_nodes [of ucd d] by blast
  moreover from assms(1) have "set (nodes d) \<subseteq> set (nodes c)" by (rule nodes_trans)
  ultimately show ?thesis unfolding nodeMatches_nodes [of ucd c] by blast
qed

lemma getPaths_own:
  "getPathsToExpand ucd n flt (path n) =
     path ` {d \<in> set (nodes n). \<exists>c\<in>set (kids d). nodeMatchesFilter ucd c flt}"
proof (induction n rule: kids_induct)
  case (node n)
  let ?W = "\<lambda>m. {d \<in> set (nodes m). \<exists>c\<in>set (kids d). nodeMatchesFilter ucd c flt}"
  have kidmatch: "nodeMatchesFilter ucd c flt" if "c \<in> set (kids n)" "d \<in> ?W c" for c d
  proof -
    from that obtain c' where "d \<in> set (nodes c)" "c' \<in> set (kids d)" "nodeMatchesFilter ucd c' flt"
      by blast
    then have "nodeMatchesFilter ucd d flt" using nodeMatches_step [of ucd d flt] by blast
    with \<open>d \<in> set (nodes c)\<close> show ?thesis by (rule match_up)
  qed
  have W: "?W n = (if \<exists>c\<in>set (kids n). nodeMatchesFilter ucd c flt then {n} else {})
                   \<union> (\<Union>c\<in>{c \<in> set (kids n). nodeMatchesFilter ucd c flt}. ?W c)"
    by (subst nodes_unfold) (use kidmatch in \<open>auto simp: nodes_def\<close>)
  have "getPathsToExpand ucd n flt (path n) =
          (\<Union>c\<in>{c \<in> set (kids n). nodeMatchesFilter ucd c flt}. insert (path n) (path ` ?W c))"
    by (subst getPaths_unfold) (simp add: node.IH)
  also have "\<dots> = path ` ?W n"
    by (subst W) auto
  finally show ?case .
qed

lemma str_includes_Nil: "str_includes s []"
  by (induction s) auto

lemma toLowerCase_Nil: "toLowerCase ucd [] = []"
  by (simp add: toLowerCase_def CodePointsToString_def)

lemma nodeMatches_empty: "nodeMatchesFilter ucd n []"
  by (cases n) (simp add: toLowerCase_Nil str_includes_Nil)







lemma pathsToExpand_char:
  "pathsToExpand ucd t flt = path ` {d \<in> set (nodes t). \<exists>c\<in>set (kids d). nodeMatchesFilter ucd c flt}"
  by (simp add: pathsToExpand_def getPaths_default getPaths_own)

lemma has_kids_children: "c \<in> set (kids d) \<Longrightarrow> children d \<noteq> None"
  by (cases "children d") (auto simp: kids_def)

lemma unique_path_node:
  assumes "uniquePaths t" and "a \<in> set (nodes t)" and "b \<in> set (nodes t)" and "path a = path b"
  shows "a = b"
proof -
  from assms(1) have "inj_on path (set (nodes t))"
    by (simp add: uniquePaths_def distinct_map)
  with assms(2-4) show ?thesis by (auto dest: inj_onD)
qed

section \<open>Facts about lower-casing\<close>

text \<open>
  On strings of Basic Latin lower-casing works letter by letter, and there the name test
  of the filter engine is the case-insensitive substring test. The result of
  \<open>toLowerCase\<close> depends on the rows of the code points of its argument only, so that
  what is computed with the excerpt holds with every database that has the same rows for
  them; for the Greek sample the five rows that matter are named.
\<close>

lemma StringToCodePoints_no_surrogate:
  "\<forall>c\<in>set s. c < 0xD800 \<Longrightarrow> StringToCodePoints s = s"
  by (induction s rule: StringToCodePoints.induct) auto

lemma CodePointsToString_bmp:
  "\<forall>c\<in>set cps. c \<le> 0xFFFF \<Longrightarrow> CodePointsToString cps = cps"
  by (induction cps) (auto simp: CodePointsToString_def UTF16EncodeCodePoint_def)

lemma asciiRows_row:
  assumes "asciiRows ucd" and "0 \<le> c" and "c < 128"
  shows "Lowercase_Mapping ucd c = [asciiLower c]"
proof -
  from assms(2,3) have "c \<in> set [0..127]" by simp
  with assms(1) show ?thesis unfolding asciiRows_def by blast
qed

lemma toLowercase_ascii:
  assumes "asciiRows ucd" and "isAscii s"
  shows "toLowercase ucd seen s = map asciiLower s"
  using assms(2)
proof (induction s arbitrary: seen)
  case Nil
  then show ?case by simp
next
  case (Cons c s)
  then have c: "0 \<le> c" "c < 128" and s: "isAscii s" by (simp_all add: isAscii_def)
  from c have "c \<noteq> 0x3A3" by simp
  moreover from assms(1) c have "Lowercase_Mapping ucd c = [asciiLower c]"
    by (rule asciiRows_row)
  ultimately show ?case using Cons.IH [OF s] by simp
qed

lemma asciiLower_ascii: "0 \<le> c \<Longrightarrow> c < 128 \<Longrightarrow> 0 \<le> asciiLower c \<and> asciiLower c < 128"
  by (simp add: asciiLower_def)

lemma toLowerCase_ascii:
  assumes "asciiRows ucd" and "isAscii s"
  shows "toLowerCase ucd s = map asciiLower s"
proof -
  from assms(2) have "\<forall>c\<in>set s. c < 0xD800" by (auto simp: isAscii_def)
  then have "StringToCodePoints s = s" by (rule StringToCodePoints_no_surrogate)
  moreover from assms(2) have "\<forall>c\<in>set (map asciiLower s). c \<le> 0xFFFF"
    using asciiLower_ascii by (fastforce simp: isAscii_def)
  then have "CodePointsToString (map asciiLower s) = map asciiLower s"
    by (rule CodePointsToString_bmp)
  ultimately show ?thesis
    by (simp add: toLowerCase_def toLowercase_ascii [OF assms])
qed





lemma seesCased_rows:
  assumes "\<forall>c\<in>set cs. Cased u c = Cased v c \<and> Case_Ignorable u c = Case_Ignorable v c"
  shows "seesCased u cs = seesCased v cs"
  using assms by (induction cs) auto

lemma toLowercase_rows:
  assumes "\<forall>c\<in>set seen \<union> set cs. Lowercase_Mapping u c = Lowercase_Mapping v c
              \<and> Cased u c = Cased v c \<and> Case_Ignorable u c = Case_Ignorable v c"
  shows "toLowercase u seen cs = toLowercase v seen cs"
  using assms
proof (induction cs arbitrary: seen)
  case Nil
  then show ?case by simp
next
  case (Cons c cs)
  have "seesCased u seen = seesCased v seen" "seesCased u cs = seesCased v cs"
    using Cons.prems by (auto intro!: seesCased_rows)
  moreover have "Lowercase_Mapping u c = Lowercase_Mapping v c" using Cons.prems by simp
  moreover have "toLowercase u (c # seen) cs = toLowercase v (c # seen) cs"
    using Cons.prems by (intro Cons.IH) auto
  ultimately show ?case by simp
qed

lemma toLowerCase_rows:
  assumes "\<forall>c\<in>set (StringToCodePoints s). Lowercase_Mapping u c = Lowercase_Mapping v c
              \<and> Cased u c = Cased v c \<and> Case_Ignorable u c = Case_Ignorable v c"
  shows "toLowerCase u s = toLowerCase v s"
proof -
  have "toLowercase u [] (StringToCodePoints s) = toLowercase v [] (StringToCodePoints s)"
    by (rule toLowercase_rows) (use assms in simp)
  then show ?thesis by (simp add: toLowerCase_def)
qed


section \<open>Facts about the content formatter and the handlers\<close>

lemma splitOn_nonempty: "splitOn sep s \<noteq> []"
  by (induction s) (auto split: list.splits)

lemma splitOn_trailing: "splitOn sep (s @ [sep]) = splitOn sep s @ [[]]"
  by (induction s) (auto split: list.splits simp: splitOn_nonempty)

lemma splitOn_no_sep: "seg \<in> set (splitOn sep s) \<Longrightarrow> sep \<notin> set seg"
  by (induction s arbitrary: seg) (auto split: list.splits if_splits)

lemma splitOn_plain: "sep \<notin> set s \<Longrightarrow> splitOn sep s = [s]"
  by (induction s) auto

lemma splitOn_append: "sep \<notin> set a \<Longrightarrow> splitOn sep (a @ sep # b) = a # splitOn sep b"
  by (induction a) auto

lemma splitOn_last_segment:
  "sep \<notin> set e \<Longrightarrow> \<exists>segs. segs \<noteq> [] \<and> splitOn sep (stem @ sep # e) = segs @ [e]"
proof (induction stem)
  case Nil
  then have "splitOn sep ([] @ sep # e) = [[]] @ [e]" by (simp add: splitOn_plain)
  then show ?case by blast
next
  case (Cons c stem)
  then obtain g gs where eq: "splitOn sep (stem @ sep # e) = (g # gs) @ [e]"
    by (metis list.exhaust)
  show ?case
  proof (cases "c = sep")
    case True
    with eq have "splitOn sep ((c # stem) @ sep # e) = ([] # g # gs) @ [e]" by simp
    then show ?thesis by blast
  next
    case False
    with eq have "splitOn sep ((c # stem) @ sep # e) = ((c # g) # gs) @ [e]" by simp
    then show ?thesis by blast
  qed
qed

lemma last_splitOn_append:
  "sep \<notin> set e \<Longrightarrow> last (splitOn sep (stem @ sep # e)) = e"
  using splitOn_last_segment [of sep e stem] by auto

lemma FileViewer_shows_lines:
  "p \<noteq> [] \<Longrightarrow> getLanguageFromPath ucd p \<noteq> JsObjectPrototype \<Longrightarrow>
   FileViewer ucd (Some text) (Some p) False None
     = Inr (ViewerContent (getFilename p) (getLanguageFromPath ucd p) (splitOn 0x0A text))"
  by (simp add: FileViewer_def truthy_def)

lemma FileViewer_empty_text:
  "p \<noteq> [] \<Longrightarrow> getLanguageFromPath ucd p \<noteq> JsObjectPrototype \<Longrightarrow>
   FileViewer ucd (Some []) (Some p) False None
     = Inr (ViewerContent (getFilename p) (getLanguageFromPath ucd p) [[]])"
  by (simp add: FileViewer_def truthy_def)

lemma FileViewer_throws:
  "p \<noteq> [] \<Longrightarrow> getLanguageFromPath ucd p = JsObjectPrototype \<Longrightarrow>
   FileViewer ucd (Some text) (Some p) False None = Inl ObjectAsChild"
  by (simp add: FileViewer_def truthy_def)

lemma FileViewer_rust_example:
  "FileViewer ucdExcerpt (Some (js ''fn main() {}\<newline>'')) (Some (js ''x.rs'')) False None
     = Inr (ViewerContent (js ''x.rs'') (JsString (js ''rust'')) [js ''fn main() {}'', []])"
  by code_simp

lemma FileViewer_proto_example:
  "FileViewer ucdExcerpt (Some (js ''text'')) (Some (js ''x.__proto__'')) False None
     = Inl ObjectAsChild"
  by code_simp

lemma getLanguageFromPath_extension:
  assumes "0x2E \<notin> set e"
  shows "getLanguageFromPath ucd (stem @ 0x2E # e)
           = orElse (languageMap_get (toLowerCase ucd e)) (JsString (js ''plaintext''))"
  using assms
  by (simp add: getLanguageFromPath_def pop_def splitOn_nonempty last_splitOn_append)

lemma getLanguageFromPath_no_dot:
  assumes "0x2E \<notin> set p"
  shows "getLanguageFromPath ucd p
           = orElse (languageMap_get (toLowerCase ucd p)) (JsString (js ''plaintext''))"
  using assms by (simp add: getLanguageFromPath_def pop_def splitOn_plain)

lemma still_pending: "a \<in> set (remove1 b (xs @ [a, b]))"
  by (induction xs) auto

lemma still_pending_after: "b \<in> set ys \<Longrightarrow> a \<in> set (remove1 b (ys @ [a]))"
  by (simp add: remove1_append)

lemma getLanguageFromPath_go:
  assumes "asciiRows ucd"
  shows "getLanguageFromPath ucd (js ''go'') = JsString (js ''go'')"
proof -
  have nodot: "0x2E \<notin> set (js ''go'')" by code_simp
  have ascii: "isAscii (js ''go'')" by code_simp
  have low: "map asciiLower (js ''go'') = js ''go''" by code_simp
  have look: "orElse (languageMap_get (js ''go'')) (JsString (js ''plaintext'')) = JsString (js ''go'')"
    by code_simp
  from nodot have "getLanguageFromPath ucd (js ''go'')
      = orElse (languageMap_get (toLowerCase ucd (js ''go''))) (JsString (js ''plaintext''))"
    by (rule getLanguageFromPath_no_dot)
  also have "toLowerCase ucd (js ''go'') = js ''go''"
    using toLowerCase_ascii [OF assms ascii] low by simp
  finally show ?thesis using look by simp
qed

section \<open>Results\<close>

subsection \<open>Filter engine\<close>

text \<open>
  C3 as stated fails. The function \<open>getPathsToExpand\<close> does not return the empty set
  for the empty filter: every child matches the empty filter, so on the specification's
  sample tree it returns the paths of both directories.
\<close>

theorem pathsToExpand_empty_filter_counterexample:
  "pathsToExpand ucdExcerpt specExample [] = {js ''/'', js ''/src''}
   \<and> pathsToExpand ucdExcerpt specExample [] \<noteq> {}"
proof -
  have "pathsToExpand ucdExcerpt specExample [] = {js ''/'', js ''/src''}" by code_simp
  then show ?thesis by simp
qed

text \<open>
  C3 (amended). With the empty filter the auto-expansion step of the tree component does
  not call \<open>getPathsToExpand\<close> and leaves the expansion set as it was, whatever
  the tree; the function itself, given the empty filter, returns the path of every node
  of the tree that has at least one child.
\<close>

theorem empty_filter_expands_nothing:
  "autoExpand ucd [] loaded prev = prev
   \<and> pathsToExpand ucd t [] = path ` {d \<in> set (nodes t). kids d \<noteq> []}"
proof -
  have "autoExpand ucd [] loaded prev = prev"
    by (simp add: autoExpand_def split: option.splits)
  moreover have "(\<exists>c\<in>set (kids d). nodeMatchesFilter ucd c []) \<longleftrightarrow> kids d \<noteq> []" for d
    by (cases "kids d") (auto simp: nodeMatches_empty)
  then have "pathsToExpand ucd t [] = path ` {d \<in> set (nodes t). kids d \<noteq> []}"
    by (simp add: pathsToExpand_char)
  ultimately show ?thesis by simp
qed

text \<open>
  At the sample tree: the expansion set \<open>{/src}\<close> stays as it is, and the function
  returns the two directory paths.
\<close>

theorem empty_filter_expands_nothing_witness:
  "autoExpand ucdExcerpt [] (Some specExample) {js ''/src''} = {js ''/src''}
   \<and> pathsToExpand ucdExcerpt specExample [] = {js ''/'', js ''/src''}"
proof -
  have "path ` {d \<in> set (nodes specExample). kids d \<noteq> []} = {js ''/'', js ''/src''}"
    by code_simp
  with empty_filter_expands_nothing [of ucdExcerpt "Some specExample" "{js ''/src''}" specExample]
  show ?thesis by simp
qed






text \<open>
  C7. For every node with children \<open>cs\<close> (a directory) and every filter:
  \<open>visibleChildren\<close> returns \<open>cs\<close> itself when the filter is empty, and otherwise
  the children that match, in their original order, each as often as it occurs. A node
  without a children list has no visible children.
\<close>

theorem visibleChildren_meaning:
  "(children node = Some cs \<longrightarrow>
      visibleChildren ucd node [] = cs
      \<and> (flt \<noteq> [] \<longrightarrow>
           visibleChildren ucd node flt = filter (\<lambda>child. nodeMatchesFilter ucd child flt) cs))
   \<and> (children node = None \<longrightarrow> visibleChildren ucd node flt = [])"
  by (simp add: visibleChildren_def)

text \<open>
  At the sample tree: both children without a filter, only \<open>src\<close> with the filter
  \<open>TS\<close>.
\<close>

theorem visibleChildren_meaning_witness:
  "children specExample = Some [exampleSrc, exampleReadme]
   \<and> visibleChildren ucdExcerpt specExample [] = [exampleSrc, exampleReadme]
   \<and> visibleChildren ucdExcerpt specExample (js ''TS'') = [exampleSrc]"
proof -
  have c: "children specExample = Some [exampleSrc, exampleReadme]"
    by (simp add: specExample_def)
  have f: "filter (\<lambda>child. nodeMatchesFilter ucdExcerpt child (js ''TS''))
             [exampleSrc, exampleReadme] = [exampleSrc]"
    by code_simp
  have ne: "js ''TS'' \<noteq> []" by (simp add: js_def)
  from c f ne
    visibleChildren_meaning [of specExample "[exampleSrc, exampleReadme]" ucdExcerpt "js ''TS''"]
  show ?thesis by simp
qed

text \<open>
  C10. For every well-formed tree (unique paths, children only on Directory nodes, only
  the root's path possibly empty) and every filter, every path returned by
  \<open>pathsToExpand\<close> is the path of a Directory node of the tree; the path of a File
  node is never in the returned set, and the auto-expansion step never adds it to the
  expansion set.
\<close>

theorem pathsToExpand_only_directories:
  assumes "wellFormed t"
  shows "(\<forall>p\<in>pathsToExpand ucd t flt. \<exists>d\<in>set (nodes t). path d = p \<and> node_type d = Dir)
     \<and> (\<forall>f\<in>set (nodes t). node_type f = File \<longrightarrow>
           path f \<notin> pathsToExpand ucd t flt
           \<and> (path f \<in> autoExpand ucd flt (Some t) prev \<longrightarrow> path f \<in> prev))"
proof -
  from assms have uniq: "uniquePaths t" and dirs: "childrenOnlyOnDirs t"
    by (simp_all add: wellFormed_def)
  have isdir: "\<exists>d\<in>set (nodes t). path d = p \<and> node_type d = Dir"
    if "p \<in> pathsToExpand ucd t flt" for p
  proof -
    from that obtain d c where d: "d \<in> set (nodes t)" "path d = p" and "c \<in> set (kids d)"
      unfolding pathsToExpand_char by blast
    then have "children d \<noteq> None" by (simp add: has_kids_children)
    with dirs d(1) have "node_type d = Dir" by (simp add: childrenOnlyOnDirs_def)
    with d show ?thesis by blast
  qed
  have nofile: "path f \<notin> pathsToExpand ucd t flt"
    if f: "f \<in> set (nodes t)" "node_type f = File" for f
  proof
    assume "path f \<in> pathsToExpand ucd t flt"
    then obtain d where d: "d \<in> set (nodes t)" "path d = path f" "node_type d = Dir"
      using isdir by blast
    with uniq f(1) have "d = f" by (intro unique_path_node [of t])
    with d(3) f(2) show False by simp
  qed
  have added: "path f \<in> prev"
    if "f \<in> set (nodes t)" "node_type f = File" "path f \<in> autoExpand ucd flt (Some t) prev" for f
    using that nofile [of f]
    by (auto simp: autoExpand_def pathsToExpand_def split: if_splits)
  from isdir nofile added show ?thesis by blast
qed

text \<open>
  At the sample tree with the filter \<open>TS\<close>: the tree is well formed, the path of
  the file \<open>a.ts\<close> is not in the set, and the path \<open>/src\<close>, which is, belongs to
  a directory.
\<close>

theorem pathsToExpand_only_directories_witness:
  "wellFormed specExample
   \<and> exampleFile \<in> set (nodes specExample) \<and> node_type exampleFile = File
   \<and> path exampleFile \<notin> pathsToExpand ucdExcerpt specExample (js ''TS'')
   \<and> (\<exists>d\<in>set (nodes specExample). path d = js ''/src'' \<and> node_type d = Dir)"
proof -
  have wf: "wellFormed specExample" by code_simp
  have f: "exampleFile \<in> set (nodes specExample)" "node_type exampleFile = File" by code_simp+
  have p: "js ''/src'' \<in> pathsToExpand ucdExcerpt specExample (js ''TS'')" by code_simp
  from pathsToExpand_only_directories [OF wf, of ucdExcerpt "js ''TS''" "{}"] f p show ?thesis
    using wf by blast
qed

subsection \<open>Navigation controller\<close>

text \<open>
  C1 as stated fails. Loading a new root does not empty the expansion set. The remembered
  workspace is listed, the user opens its directory \<open>src\<close> and connects another
  folder: when the listing of the new root is issued, \<open>/src\<close> is still expanded.
\<close>

theorem loadRoot_keeps_expansion_counterexample:
  "map_option expandedPaths (run ucdExcerpt initialState staleExpansionTrace) = Some {js ''/src''}
   \<and> map_option pending (run ucdExcerpt initialState staleExpansionTrace)
       = Some [ListTree (js ''/b'')]
   \<and> map_option expandedPaths (run ucdExcerpt initialState staleExpansionTrace) \<noteq> Some {}"
proof -
  have a: "map_option expandedPaths (run ucdExcerpt initialState staleExpansionTrace)
             = Some {js ''/src''}"
    by code_simp
  have b: "map_option pending (run ucdExcerpt initialState staleExpansionTrace)
             = Some [ListTree (js ''/b'')]"
    by code_simp
  have c: "map_option expandedPaths (run ucdExcerpt initialState staleExpansionTrace) \<noteq> Some {}"
    unfolding a by simp
  show ?thesis by (intro conjI a b c)
qed

text \<open>
  C1 (amended). For every state and every path, \<open>handleLoadTree\<close> first sets the
  selection to none and clears the cached file content and the file error (as well as the
  tree and the tree error), and only then issues the external listing call; the
  expansion set is left as it was.
\<close>

theorem handleLoadTree_resets:
  "handleLoadTree p s = issue (ListTree p) (loadTreeResets p s)
   \<and> pending (loadTreeResets p s) = pending s
   \<and> pending (handleLoadTree p s) = pending s @ [ListTree p]
   \<and> selectedFilePath (loadTreeResets p s) = None
   \<and> fileContent (loadTreeResets p s) = None
   \<and> fileError (loadTreeResets p s) = None
   \<and> tree (loadTreeResets p s) = None
   \<and> treeError (loadTreeResets p s) = None
   \<and> workspacePath (loadTreeResets p s) = Some p
   \<and> expandedPaths (loadTreeResets p s) = expandedPaths s
   \<and> expandedPaths (handleLoadTree p s) = expandedPaths s"
  by (simp add: handleLoadTree_def loadTreeResets_def issue_def)

text \<open>
  C2 as stated fails. A listing that arrives for a superseded root is not discarded. Roots
  \<open>/a\<close> and \<open>/b\<close> are loaded in this order, the listing of \<open>/b\<close> settles first
  and that of \<open>/a\<close> last, and both paths are saved: the tree held and shown at the end
  is the one of \<open>/a\<close>, under the workspace path \<open>/b\<close>.
\<close>

theorem stale_listing_counterexample:
  "map_option tree (run ucdExcerpt initialState staleListingTrace) = Some (Some treeA)
   \<and> map_option workspacePath (run ucdExcerpt initialState staleListingTrace)
       = Some (Some (js ''/b''))
   \<and> map_option (FileTree ucdExcerpt) (run ucdExcerpt initialState staleListingTrace)
       = Some (TreeShown
                 [\<lparr>row_node = TreeNode (js ''a.txt'') (js ''a.txt'') File None (Some 1) (Some False),
                   row_depth = 1, row_expanded = None, row_selected = False\<rparr>])"
  by code_simp

text \<open>
  C2 (amended). For any two calls of \<open>handleLoadTree\<close>, first for root \<open>a\<close> then for
  root \<open>b\<close>, where the listing of \<open>b\<close> settles first and the listing of \<open>a\<close>
  after it: both results are applied on arrival, so that from the arrival of the second
  the tree held is the one listed for \<open>a\<close> while the workspace path is \<open>b\<close>; and
  once both saves of the path have succeeded, whether the save for \<open>b\<close> settles
  before or after the listing of \<open>a\<close>, that tree is the one shown.
\<close>

theorem stale_listing_applied:
  "(\<exists>s'. run ucd (handleLoadTree b (handleLoadTree a s))
              [ListTreeDone b (Inr tb), ListTreeDone a (Inr ta)] = Some s'
         \<and> tree s' = Some ta \<and> workspacePath s' = Some b)
   \<and> (\<exists>s'. run ucd (handleLoadTree b (handleLoadTree a s))
              [ListTreeDone b (Inr tb), ListTreeDone a (Inr ta),
               SaveDone b (Inr ()), SaveDone a (Inr ())] = Some s'
         \<and> tree s' = Some ta \<and> workspacePath s' = Some b
         \<and> FileTree ucd s'
             = TreeShown (TreeNodeItem ucd ta None (expandedPaths s') (localSearchFilter s) 0))
   \<and> (\<exists>s'. run ucd (handleLoadTree b (handleLoadTree a s))
              [ListTreeDone b (Inr tb), SaveDone b (Inr ()),
               ListTreeDone a (Inr ta), SaveDone a (Inr ())] = Some s'
         \<and> tree s' = Some ta \<and> workspacePath s' = Some b
         \<and> FileTree ucd s'
             = TreeShown (TreeNodeItem ucd ta None (expandedPaths s') (localSearchFilter s) 0))"
proof (intro conjI)
  show "\<exists>s'. run ucd (handleLoadTree b (handleLoadTree a s))
              [ListTreeDone b (Inr tb), ListTreeDone a (Inr ta)] = Some s'
         \<and> tree s' = Some ta \<and> workspacePath s' = Some b"
    by (simp add: handleLoadTree_def loadTreeResets_def issue_def settle_def
          listTreeResolved_def still_pending)
  show "\<exists>s'. run ucd (handleLoadTree b (handleLoadTree a s))
              [ListTreeDone b (Inr tb), ListTreeDone a (Inr ta),
               SaveDone b (Inr ()), SaveDone a (Inr ())] = Some s'
         \<and> tree s' = Some ta \<and> workspacePath s' = Some b
         \<and> FileTree ucd s'
             = TreeShown (TreeNodeItem ucd ta None (expandedPaths s') (localSearchFilter s) 0)"
    by (simp add: handleLoadTree_def loadTreeResets_def issue_def settle_def
          listTreeResolved_def saveResolved_def still_pending still_pending_after
          FileTree_def truthy_def)
  show "\<exists>s'. run ucd (handleLoadTree b (handleLoadTree a s))
              [ListTreeDone b (Inr tb), SaveDone b (Inr ()),
               ListTreeDone a (Inr ta), SaveDone a (Inr ())] = Some s'
         \<and> tree s' = Some ta \<and> workspacePath s' = Some b
         \<and> FileTree ucd s'
             = TreeShown (TreeNodeItem ucd ta None (expandedPaths s') (localSearchFilter s) 0)"
    by (simp add: handleLoadTree_def loadTreeResets_def issue_def settle_def
          listTreeResolved_def saveResolved_def still_pending still_pending_after
          FileTree_def truthy_def)
qed

text \<open>
  C4 as stated fails. A read that arrives for a superseded selection is not discarded. The
  files \<open>x.txt\<close> and \<open>y.txt\<close> are clicked in this order and the read of
  \<open>x.txt\<close> settles last: the selection is \<open>y.txt\<close> and the content shown under
  its name is the one of \<open>x.txt\<close>.
\<close>

theorem stale_read_counterexample:
  "map_option selectedFilePath (run ucdExcerpt initialState staleReadTrace)
     = Some (Some (js ''y.txt''))
   \<and> map_option fileContent (run ucdExcerpt initialState staleReadTrace) = Some (Some (js ''X''))
   \<and> map_option (contentPane ucdExcerpt) (run ucdExcerpt initialState staleReadTrace)
       = Some (Inr (ViewerContent (js ''y.txt'') (JsString (js ''plaintext'')) [js ''X'']))"
  by code_simp

text \<open>
  C4 (amended). With a workspace connected, for any two calls of \<open>handleFileSelect\<close>,
  first for \<open>x\<close> then for \<open>y\<close>, where the read of \<open>y\<close> settles first and the read
  of \<open>x\<close> after it: both results are applied on arrival, so the content held afterwards
  is the one read for \<open>x\<close> while the selection is \<open>y\<close>, and the viewer is
  rendered from the text of \<open>x\<close> under the path \<open>y\<close>.
\<close>

theorem stale_read_applied:
  assumes "workspacePath s = Some root" and "root \<noteq> []"
  shows "\<exists>s'. run ucd (handleFileSelect y (handleFileSelect x s))
               [ReadDone root y (Inr cy), ReadDone root x (Inr cx)] = Some s'
          \<and> fileContent s' = Some cx \<and> selectedFilePath s' = Some y
          \<and> contentPane ucd s' = FileViewer ucd (Some cx) (Some y) False None"
  using assms
  by (simp add: handleFileSelect_def issue_def settle_def readResolved_def still_pending
        contentPane_def)

text \<open>
  At the workspace \<open>/w\<close>, just connected, with the files \<open>x.txt\<close> and
  \<open>y.txt\<close>.
\<close>

theorem stale_read_applied_witness:
  "workspacePath (handleLoadTree (js ''/w'') initialState) = Some (js ''/w'')
   \<and> (\<exists>s'. run ucdExcerpt
                (handleFileSelect (js ''y.txt'')
                   (handleFileSelect (js ''x.txt'') (handleLoadTree (js ''/w'') initialState)))
                [ReadDone (js ''/w'') (js ''y.txt'') (Inr (js ''Y'')),
                 ReadDone (js ''/w'') (js ''x.txt'') (Inr (js ''X''))] = Some s'
          \<and> fileContent s' = Some (js ''X'') \<and> selectedFilePath s' = Some (js ''y.txt'')
          \<and> contentPane ucdExcerpt s'
              = FileViewer ucdExcerpt (Some (js ''X'')) (Some (js ''y.txt'')) False None)"
proof -
  have w: "workspacePath (handleLoadTree (js ''/w'') initialState) = Some (js ''/w'')"
    by (simp add: handleLoadTree_def loadTreeResets_def issue_def)
  have ne: "js ''/w'' \<noteq> []" by (simp add: js_def)
  from stale_read_applied [OF w ne, of ucdExcerpt "js ''y.txt''" "js ''x.txt''" "js ''Y''" "js ''X''"] w
  show ?thesis by simp
qed

subsection \<open>Content formatter\<close>

text \<open>
  C8. The lines are the text split at every line feed, an empty last segment kept (see
  \<open>FileViewer_shows_lines\<close>, \<open>splitOn_trailing\<close>, \<open>FileViewer_empty_text\<close>), and
  the specification's example holds (\<open>FileViewer_rust_example\<close>). The language of a
  path without an extension is not always \<open>plaintext\<close>: without a dot the whole
  lower-cased path is the key of the lookup, so the file \<open>go\<close> at the root of the
  workspace is labelled \<open>go\<close> (with every database that has the rows of Basic Latin,
  see \<open>getLanguageFromPath_go\<close>).
\<close>

theorem getLanguageFromPath_without_extension:
  "getLanguageFromPath ucdExcerpt (js ''go'') = JsString (js ''go'')
   \<and> getLanguageFromPath ucdExcerpt (js ''go'') \<noteq> JsString (js ''plaintext'')
   \<and> FileViewer ucdExcerpt (Some (js ''package main'')) (Some (js ''go'')) False None
       = Inr (ViewerContent (js ''go'') (JsString (js ''go'')) [js ''package main''])"
proof -
  have a: "getLanguageFromPath ucdExcerpt (js ''go'') = JsString (js ''go'')" by code_simp
  have b: "getLanguageFromPath ucdExcerpt (js ''go'') \<noteq> JsString (js ''plaintext'')"
    by code_simp
  have c: "FileViewer ucdExcerpt (Some (js ''package main'')) (Some (js ''go'')) False None
       = Inr (ViewerContent (js ''go'') (JsString (js ''go'')) [js ''package main''])"
    by code_simp
  show ?thesis by (intro conjI a b c)
qed

subsection \<open>Expansion state\<close>

text \<open>
  C9. For every expansion set and every path, toggling the path twice in succession gives
  back the set that was there before the first toggle: membership of that path and of
  every other path is as it was.
\<close>

theorem toggleExpanded_involution:
  "toggleExpanded p (toggleExpanded p S) = S"
  by (auto simp: toggleExpanded_def)

end
